theory Spec2Isabelle
  imports Complex_Main
begin

section \<open>The data preparation of \<open>shap.plots._heatmap.heatmap\<close>\<close>

text \<open>
  The source is one Python function, \<open>heatmap\<close> (src/shap/plots/_heatmap.py), that
  prepares a matrix of SHAP values and hands the prepared pieces to matplotlib. The
  embedding follows it line by line up to the values each matplotlib call receives;
  the drawing itself (the \<open>pl.*\<close> calls) is not modelled and is taken not to raise.

  Numbers. A numpy float is modelled as a real number or NaN, and arithmetic on the
  reals is exact. So three things float64 does are outside the model: rounding (and
  with it the order in which numpy adds), overflow of a sum to an infinity, and signed
  zeros; \<open>npfloat\<close> holds no infinity. The properties below therefore use no law of exact
  addition (associativity, or that a sum of numbers is a number): where a property
  depends on computed sums, its hypotheses are on the computed values (the per-sample
  means), not on the entries they were added from.
\<close>

subsection \<open>Python exceptions\<close>

datatype py_error =
    Exception string
  | UnboundLocalError string
  | IndexError
  | ValueError
  | ZeroDivisionError

subsection \<open>numpy floats\<close>

datatype npfloat = Num real | NaN

fun np_neg :: "npfloat \<Rightarrow> npfloat" where
  "np_neg (Num x) = Num (- x)"
| "np_neg NaN = NaN"

fun np_abs :: "npfloat \<Rightarrow> npfloat" where
  "np_abs (Num x) = Num \<bar>x\<bar>"
| "np_abs NaN = NaN"

text \<open>
  \<open>a + b\<close>: the exact sum. float64 rounds it (\<open>1e16 + 1\<close> is \<open>1e16\<close>) and overflows
  (\<open>1e308 + 1e308\<close> is \<open>inf\<close>); neither is modelled.
\<close>

fun np_add :: "npfloat \<Rightarrow> npfloat \<Rightarrow> npfloat" where
  "np_add (Num x) (Num y) = Num (x + y)"
| "np_add _ _ = NaN"

fun np_sub :: "npfloat \<Rightarrow> npfloat \<Rightarrow> npfloat" where
  "np_sub (Num x) (Num y) = Num (x - y)"
| "np_sub _ _ = NaN"

fun np_mul :: "npfloat \<Rightarrow> npfloat \<Rightarrow> npfloat" where
  "np_mul (Num x) (Num y) = Num (x * y)"
| "np_mul _ _ = NaN"

text \<open>
  numpy's array division does not raise: \<open>0 / 0\<close> is NaN (with a RuntimeWarning).
  \<open>x / 0\<close> for \<open>x \<noteq> 0\<close> is an infinity in numpy, which \<open>npfloat\<close> does not hold; that case
  is mapped to NaN here. The two divisions of \<open>heatmap\<close> divide a list by its own largest
  absolute value, which is zero only when every dividend is (\<open>np_abs_max_zero\<close> below).
\<close>

fun np_div :: "npfloat \<Rightarrow> npfloat \<Rightarrow> npfloat" where
  "np_div (Num x) (Num y) = (if y = 0 then NaN else Num (x / y))"
| "np_div _ _ = NaN"

text \<open>\<open>a < b\<close> on floats: False as soon as one side is NaN.\<close>

fun np_lt :: "npfloat \<Rightarrow> npfloat \<Rightarrow> bool" where
  "np_lt (Num x) (Num y) = (x < y)"
| "np_lt _ _ = False"

text \<open>
  Python's builtin \<open>min(a, b)\<close> and \<open>max(a, b)\<close>: the first argument is kept unless the
  second compares strictly smaller (larger).
\<close>

definition py_min :: "npfloat \<Rightarrow> npfloat \<Rightarrow> npfloat" where
  "py_min a b = (if np_lt b a then b else a)"

definition py_max :: "npfloat \<Rightarrow> npfloat \<Rightarrow> npfloat" where
  "py_max a b = (if np_lt a b then b else a)"

text \<open>
  \<open>a.sum()\<close>: 0.0 on an empty array, NaN as soon as one entry is NaN. The order in
  which numpy adds is not modelled (it does not matter to an exact sum).
\<close>

fun np_sum :: "npfloat list \<Rightarrow> npfloat" where
  "np_sum [] = Num 0"
| "np_sum (x # xs) = np_add x (np_sum xs)"

text \<open>
  \<open>np.maximum\<close> of two floats (NaN wins), and \<open>a.max()\<close>: ValueError on an empty array
  ("zero-size array to reduction operation maximum which has no identity").
\<close>

fun np_maximum :: "npfloat \<Rightarrow> npfloat \<Rightarrow> npfloat" where
  "np_maximum (Num x) (Num y) = Num (max x y)"
| "np_maximum _ _ = NaN"

fun np_max :: "npfloat list \<Rightarrow> py_error + npfloat" where
  "np_max [] = Inl ValueError"
| "np_max [x] = Inr x"
| "np_max (x # y # ys) = (case np_max (y # ys) of Inl e \<Rightarrow> Inl e | Inr m \<Rightarrow> Inr (np_maximum x m))"

text \<open>\<open>np.abs(a).max()\<close>\<close>

definition np_abs_max :: "npfloat list \<Rightarrow> py_error + npfloat" where
  "np_abs_max a = np_max (map np_abs a)"

subsection \<open>\<open>np.nanpercentile\<close>\<close>

text \<open>
  numpy's library function, as documented: NaN entries are dropped, the rest is sorted,
  and the value at the fractional position \<open>q / 100 * (n - 1)\<close> is interpolated linearly
  between its two neighbours. An array with no entry left gives NaN (with a
  RuntimeWarning); \<open>q\<close> outside \<open>[0, 100]\<close> raises ValueError.
\<close>

fun drop_nan :: "npfloat list \<Rightarrow> real list" where
  "drop_nan [] = []"
| "drop_nan (Num x # xs) = x # drop_nan xs"
| "drop_nan (NaN # xs) = drop_nan xs"

definition lerp_at :: "real list \<Rightarrow> real \<Rightarrow> real" where
  "lerp_at xs h =
     (let lo = nat \<lfloor>h\<rfloor>; hi = min (lo + 1) (length xs - 1); t = h - real lo
      in xs ! lo * (1 - t) + xs ! hi * t)"

definition nanpercentile :: "npfloat list \<Rightarrow> real \<Rightarrow> py_error + npfloat" where
  "nanpercentile a q =
     (if q < 0 \<or> 100 < q then Inl ValueError
      else let xs = sort (drop_nan a) in
        if xs = [] then Inr NaN
        else Inr (Num (lerp_at xs (q / 100 * real (length xs - 1)))))"

subsection \<open>Arrays and integer-array indexing\<close>

text \<open>
  A two-dimensional array: its rows (one per sample) and its second dimension, which
  numpy keeps also when there is no row.
\<close>

record ndarray2 =
  shape1 :: nat
  rows :: "npfloat list list"

definition shape0 :: "ndarray2 \<Rightarrow> nat" where
  "shape0 a = length (rows a)"

definition wf_array :: "ndarray2 \<Rightarrow> bool" where
  "wf_array a = list_all (\<lambda>r. length r = shape1 a) (rows a)"

text \<open>\<open>a.flatten()\<close>\<close>

definition flatten :: "ndarray2 \<Rightarrow> npfloat list" where
  "flatten a = concat (rows a)"

text \<open>
  One index into an axis of size \<open>n\<close>: a negative index counts from the end, anything
  outside \<open>[-n, n)\<close> raises IndexError.
\<close>

definition np_index :: "nat \<Rightarrow> int \<Rightarrow> py_error + nat" where
  "np_index n i =
     (if 0 \<le> i \<and> i < int n then Inr (nat i)
      else if - int n \<le> i \<and> i < 0 then Inr (nat (int n + i))
      else Inl IndexError)"

fun np_indices :: "nat \<Rightarrow> int list \<Rightarrow> py_error + nat list" where
  "np_indices n [] = Inr []"
| "np_indices n (i # is) =
     (case np_index n i of
        Inl e \<Rightarrow> Inl e
      | Inr j \<Rightarrow> (case np_indices n is of Inl e \<Rightarrow> Inl e | Inr js \<Rightarrow> Inr (j # js)))"

text \<open>\<open>a[idx]\<close> for a one-dimensional \<open>a\<close> and an integer array \<open>idx\<close>.\<close>

definition take_idx :: "'a list \<Rightarrow> int list \<Rightarrow> py_error + 'a list" where
  "take_idx a idx =
     (case np_indices (length a) idx of
        Inl e \<Rightarrow> Inl e
      | Inr js \<Rightarrow> Inr (map (\<lambda>j. a ! j) js))"

text \<open>\<open>a[idx]\<close> (rows) and \<open>a[:, idx]\<close> (columns) for a two-dimensional \<open>a\<close>.\<close>

definition take_rows :: "ndarray2 \<Rightarrow> int list \<Rightarrow> py_error + ndarray2" where
  "take_rows a idx =
     (case take_idx (rows a) idx of
        Inl e \<Rightarrow> Inl e
      | Inr rs \<Rightarrow> Inr (a\<lparr>rows := rs\<rparr>))"

definition take_cols :: "ndarray2 \<Rightarrow> int list \<Rightarrow> py_error + ndarray2" where
  "take_cols a idx =
     (case np_indices (shape1 a) idx of
        Inl e \<Rightarrow> Inl e
      | Inr js \<Rightarrow> Inr \<lparr>shape1 = length js, rows = map (\<lambda>r. map (\<lambda>j. r ! j) js) (rows a)\<rparr>)"

subsection \<open>The arguments of \<open>heatmap\<close>\<close>

text \<open>
  \<open>shap_values\<close> is an Explanation: the matrix \<open>shap_values.values\<close> (samples by
  features) and \<open>shap_values.feature_names\<close>.
\<close>

record explanation =
  sv_values :: ndarray2
  feature_names :: "string list"

text \<open>
  \<open>input_order\<close> and \<open>sample_order\<close> are dispatched on their runtime type
  (lines 43 to 50):
  \<^item> \<open>Strategy f\<close>: an object of the type of \<open>shap.order\<close>. The module \<open>order\<close> is not
    part of the source at hand, so the result of its \<open>apply(values, axis, ...)\<close> is a
    parameter \<open>f\<close>: an integer array (the ordering) and the values it was computed from,
    or an exception. Called without \<open>return_values\<close> it returns the ordering alone.
  \<^item> \<open>Sized idx\<close>: any other object with \<open>__len__\<close>; the docstring names a
    \<open>numpy.ndarray\<close>, modelled as a one-dimensional integer array.
  \<^item> \<open>Other s\<close>: anything else, with \<open>s\<close> its \<open>str()\<close>.
\<close>

datatype ordering =
    Strategy "ndarray2 \<Rightarrow> nat \<Rightarrow> py_error + (int list \<times> npfloat list)"
  | Sized "int list"
  | Other string

subsection \<open>Lines 43 to 50: resolving the two orderings\<close>

text \<open>
  The local variable \<open>order_values\<close> is assigned on the Strategy branch only:
  \<open>None\<close> is the unbound variable.
\<close>

definition resolve_input_order ::
  "ndarray2 \<Rightarrow> ordering \<Rightarrow> py_error + (int list \<times> npfloat list option)" where
  "resolve_input_order vals input_order =
     (case input_order of
        Strategy f \<Rightarrow>
          (case f vals 1 of Inl e \<Rightarrow> Inl e | Inr (p, v) \<Rightarrow> Inr (p, Some v))
      | Sized p \<Rightarrow> Inr (p, None)
      | Other s \<Rightarrow> Inl (Exception (''Unsupported input_order: '' @ s @ ''!'')))"

definition resolve_sample_order :: "ndarray2 \<Rightarrow> ordering \<Rightarrow> py_error + int list" where
  "resolve_sample_order vals sample_order =
     (case sample_order of
        Strategy f \<Rightarrow>
          (case f vals 0 of Inl e \<Rightarrow> Inl e | Inr (p, v) \<Rightarrow> Inr p)
      | Sized p \<Rightarrow> Inr p
      | Other s \<Rightarrow> Inl (Exception (''Unsupported sample_order: '' @ s @ ''!'')))"

subsection \<open>Lines 52 to 54: reindexing\<close>

definition reindex ::
  "explanation \<Rightarrow> int list \<Rightarrow> int list \<Rightarrow> npfloat list option \<Rightarrow>
     py_error + (string list \<times> ndarray2 \<times> npfloat list)" where
  "reindex shap_values input_order sample_order order_values =
     (case take_idx (feature_names shap_values) input_order of
        Inl e \<Rightarrow> Inl e
      | Inr names \<Rightarrow>
     (case take_rows (sv_values shap_values) sample_order of
        Inl e \<Rightarrow> Inl e
      | Inr by_rows \<Rightarrow>
     (case take_cols by_rows input_order of
        Inl e \<Rightarrow> Inl e
      | Inr vals \<Rightarrow>
     (case order_values of
        None \<Rightarrow> Inl (UnboundLocalError ''order_values'')
      | Some ov \<Rightarrow>
     (case take_idx ov input_order of
        Inl e \<Rightarrow> Inl e
      | Inr ovs \<Rightarrow> Inr (names, vals, ovs))))))"

subsection \<open>Lines 57 to 67: collapsing the tail of the features\<close>

text \<open>\<open>"%d" % n\<close> for a natural number.\<close>

fun str_nat :: "nat \<Rightarrow> string" where
  "str_nat n =
     (if n < 10 then [''0123456789'' ! n]
      else str_nat (n div 10) @ [''0123456789'' ! (n mod 10)])"

text \<open>
  Here \<open>vals\<close> has \<open>shape1 vals\<close> columns and \<open>order_values\<close> and \<open>names\<close> have that many
  entries (all three were indexed by \<open>input_order\<close> on lines 52 to 54).

  With \<open>max_display < 1\<close> the branch raises before line 61:
  \<^item> \<open>np.zeros((n, max_display))\<close> raises ValueError for a negative dimension;
  \<^item> for \<open>max_display = 0\<close>, line 59 assigns the \<open>shape1 - 1\<close> columns \<open>values[:, :-1]\<close> to the
    zero columns of \<open>new_values[:, :-1]\<close>, a ValueError unless they broadcast (zero or one
    column), and line 60 then indexes column \<open>-1\<close> of an array without columns, an
    IndexError.
\<close>

definition collapse ::
  "ndarray2 \<Rightarrow> string list \<Rightarrow> npfloat list \<Rightarrow> int \<Rightarrow>
     py_error + (ndarray2 \<times> string list \<times> npfloat list)" where
  "collapse vals names order_values max_display =
     (if int (shape1 vals) > max_display then
        if max_display < 0 then Inl ValueError
        else if max_display = 0 then
          (if shape1 vals - 1 \<le> 1 then Inl IndexError else Inl ValueError)
        else
          let k = nat (max_display - 1);
              new_values = \<lparr>shape1 = nat max_display,
                            rows = map (\<lambda>r. take k r @ [np_sum (drop k r)]) (rows vals)\<rparr>;
              new_order_values = take k order_values @ [np_sum (drop k order_values)];
              kept = take (nat max_display) names
          in if kept = [] then Inl IndexError
             else Inr (new_values,
                       butlast kept @
                         [str_nat (nat (int (shape1 vals) - max_display + 1)) @ '' other features''],
                       new_order_values)
      else Inr (vals, names, order_values))"

subsection \<open>Lines 69 to 104: what the plot receives\<close>

text \<open>
  \<^item> \<open>fig_height\<close>: the height given to \<open>set_size_inches\<close> (line 71);
  \<^item> \<open>plot_values\<close>, \<open>aspect\<close>, \<open>vmin\<close>, \<open>vmax\<close>: the arguments of \<open>imshow\<close> (lines 76 to 79; the
    matrix is passed transposed);
  \<^item> \<open>ytick_labels\<close>: the feature labels of \<open>yticks\<close> (line 83);
  \<^item> \<open>fx_line\<close>: the curve given to \<open>plot\<close> (line 96);
  \<^item> \<open>bar_widths\<close>: the widths given to \<open>barh\<close> (line 101);
  \<^item> \<open>final_order_values\<close>: \<open>order_values\<close> after collapsing.
\<close>

record layout =
  plot_values :: ndarray2
  ytick_labels :: "string list"
  final_order_values :: "npfloat list"
  fig_height :: real
  aspect :: real
  vmin :: npfloat
  vmax :: npfloat
  fx_line :: "npfloat list"
  bar_widths :: "npfloat list"

text \<open>\<open>values.T.mean(0)\<close>: the mean over the features, one per sample (line 95).\<close>

definition mean_fx :: "ndarray2 \<Rightarrow> npfloat list" where
  "mean_fx vals = map (\<lambda>r. np_div (np_sum r) (Num (real (shape1 vals)))) (rows vals)"

text \<open>\<open>-fx / np.abs(fx).max()\<close>, the normalised curve of line 96 before its offset.\<close>

definition normalized_fx :: "npfloat list \<Rightarrow> py_error + npfloat list" where
  "normalized_fx fx =
     (case np_abs_max fx of
        Inl e \<Rightarrow> Inl e
      | Inr m \<Rightarrow> Inr (map (\<lambda>x. np_div (np_neg x) m) fx))"

text \<open>\<open>(order_values / np.abs(order_values).max()) * values.shape[0] / 20\<close> (line 101)\<close>

definition bars :: "npfloat list \<Rightarrow> nat \<Rightarrow> py_error + npfloat list" where
  "bars order_values n =
     (case np_abs_max order_values of
        Inl e \<Rightarrow> Inl e
      | Inr m \<Rightarrow>
          Inr (map (\<lambda>x. np_div (np_mul (np_div x m) (Num (real n))) (Num 20)) order_values))"

text \<open>
  Lines 74 to 77: the two percentiles of the flattened matrix, and the bounds given to
  \<open>imshow\<close> as \<open>vmin=min(vmin, -vmax)\<close> and \<open>vmax=max(-vmin, vmax)\<close>.
\<close>

definition color_scale :: "ndarray2 \<Rightarrow> py_error + (npfloat \<times> npfloat)" where
  "color_scale vals =
     (case nanpercentile (flatten vals) 1 of
        Inl e \<Rightarrow> Inl e
      | Inr v1 \<Rightarrow>
     (case nanpercentile (flatten vals) 99 of
        Inl e \<Rightarrow> Inl e
      | Inr v99 \<Rightarrow> Inr (py_min v1 (np_neg v99), py_max (np_neg v1) v99)))"

text \<open>
  Python's \<open>0.7 * values.shape[0] / values.shape[1]\<close> (line 77) divides a float by an
  int and raises ZeroDivisionError when there is no feature column. The percentiles
  are computed before it; combining them cannot raise, so \<open>color_scale\<close> is taken
  as a whole before the division.
\<close>

definition plot_layout ::
  "ndarray2 \<Rightarrow> string list \<Rightarrow> npfloat list \<Rightarrow> py_error + layout" where
  "plot_layout vals names order_values =
     (case color_scale vals of
        Inl e \<Rightarrow> Inl e
      | Inr (lo, hi) \<Rightarrow>
     (if shape1 vals = 0 then Inl ZeroDivisionError
      else
     (case normalized_fx (mean_fx vals) of
        Inl e \<Rightarrow> Inl e
      | Inr curve \<Rightarrow>
     (case bars order_values (shape0 vals) of
        Inl e \<Rightarrow> Inl e
      | Inr widths \<Rightarrow>
          Inr \<lparr>plot_values = vals,
               ytick_labels = names,
               final_order_values = order_values,
               fig_height = real (shape1 vals) * 0.5 + 2.5,
               aspect = 0.7 * real (shape0 vals) / real (shape1 vals),
               vmin = lo,
               vmax = hi,
               fx_line = map (\<lambda>x. np_sub x (Num 1.5)) curve,
               bar_widths = widths\<rparr>))))"

subsection \<open>The whole function\<close>

definition heatmap ::
  "explanation \<Rightarrow> ordering \<Rightarrow> ordering \<Rightarrow> int \<Rightarrow> py_error + layout" where
  "heatmap shap_values input_order sample_order max_display =
     (case resolve_input_order (sv_values shap_values) input_order of
        Inl e \<Rightarrow> Inl e
      | Inr (io, order_values) \<Rightarrow>
     (case resolve_sample_order (sv_values shap_values) sample_order of
        Inl e \<Rightarrow> Inl e
      | Inr so \<Rightarrow>
     (case reindex shap_values io so order_values of
        Inl e \<Rightarrow> Inl e
      | Inr (names, vals, ovs) \<Rightarrow>
     (case collapse vals names ovs max_display of
        Inl e \<Rightarrow> Inl e
      | Inr (vals', names', ovs') \<Rightarrow> plot_layout vals' names' ovs'))))"

subsection \<open>Vocabulary of the statements\<close>

text \<open>
  An index numpy accepts on an axis of size \<open>n\<close>, and the position it denotes.
\<close>

definition valid_index :: "nat \<Rightarrow> int \<Rightarrow> bool" where
  "valid_index n i = (- int n \<le> i \<and> i < int n)"

definition norm_index :: "nat \<Rightarrow> int \<Rightarrow> nat" where
  "norm_index n i = (if i < 0 then nat (int n + i) else nat i)"

text \<open>\<open>a == b\<close> on floats: False as soon as one side is NaN.\<close>

fun np_eq :: "npfloat \<Rightarrow> npfloat \<Rightarrow> bool" where
  "np_eq (Num x) (Num y) = (x = y)"
| "np_eq _ _ = False"

text \<open>A float that is a number, and a number within \<open>[lo, hi]\<close>.\<close>

fun is_num :: "npfloat \<Rightarrow> bool" where
  "is_num (Num x) = True"
| "is_num NaN = False"

fun np_between :: "real \<Rightarrow> real \<Rightarrow> npfloat \<Rightarrow> bool" where
  "np_between lo hi (Num x) = (lo \<le> x \<and> x \<le> hi)"
| "np_between lo hi NaN = False"

text \<open>A matrix whose entries are all zero.\<close>

definition all_zero :: "ndarray2 \<Rightarrow> bool" where
  "all_zero a = list_all (list_all (\<lambda>x. x = Num 0)) (rows a)"

section \<open>Properties\<close>

lemmas heatmap_defs =
  heatmap_def resolve_input_order_def resolve_sample_order_def reindex_def take_idx_def
  take_rows_def take_cols_def np_index_def collapse_def plot_layout_def color_scale_def
  nanpercentile_def flatten_def lerp_at_def mean_fx_def normalized_fx_def np_abs_max_def
  bars_def shape0_def py_min_def py_max_def

subsection \<open>Integer-array indexing\<close>

lemma np_index_valid: "valid_index n i \<Longrightarrow> np_index n i = Inr (norm_index n i)"
  by (auto simp: valid_index_def norm_index_def np_index_def)

lemma np_index_invalid: "\<not> valid_index n i \<Longrightarrow> np_index n i = Inl IndexError"
  by (auto simp: valid_index_def np_index_def)

lemma np_indices_valid:
  "list_all (valid_index n) idx \<Longrightarrow> np_indices n idx = Inr (map (norm_index n) idx)"
  by (induction idx) (simp_all add: np_index_valid)

lemma np_indices_invalid:
  "\<not> list_all (valid_index n) idx \<Longrightarrow> np_indices n idx = Inl IndexError"
proof (induction idx)
  case Nil
  then show ?case by simp
next
  case (Cons i idx)
  show ?case
  proof (cases "valid_index n i")
    case True
    with Cons show ?thesis by (simp add: np_index_valid)
  next
    case False
    then show ?thesis by (simp add: np_index_invalid)
  qed
qed

lemma np_indices_length: "np_indices n idx = Inr js \<Longrightarrow> length js = length idx"
  by (induction idx arbitrary: js) (auto split: sum.splits)

lemma np_indices_bound: "np_indices n idx = Inr js \<Longrightarrow> list_all (\<lambda>j. j < n) js"
proof (induction idx arbitrary: js)
  case Nil
  then show ?case by simp
next
  case (Cons i idx)
  then show ?case
    by (auto simp: np_index_def split: sum.splits if_splits)
qed

lemma wf_array_rows: "wf_array a \<Longrightarrow> i < shape0 a \<Longrightarrow> length (rows a ! i) = shape1 a"
  by (simp add: wf_array_def shape0_def list_all_length)

lemma color_scale_total: "\<exists>lo hi. color_scale vals = Inr (lo, hi)"
  by (simp add: color_scale_def nanpercentile_def Let_def)

subsection \<open>An explicit feature ordering\<close>

text \<open>
  With an explicit \<open>input_order\<close> the variable \<open>order_values\<close> is never assigned, and
  line 54 reads it: no call with an explicit feature ordering returns.
\<close>

lemma explicit_input_order_fails:
  "heatmap shap_values (Sized p) sample_order max_display \<noteq> Inr L"
  by (auto simp: heatmap_def resolve_input_order_def reindex_def split: sum.splits)

text \<open>
  C1. For an explicit feature ordering whose length equals the number of features the
  function should complete, with the feature scores absent. It does not: on one sample
  and one feature with the orderings \<open>[0]\<close> and \<open>[0]\<close>, line 54 raises UnboundLocalError.
\<close>

theorem explicit_input_order_unbound:
  "heatmap \<lparr>sv_values = \<lparr>shape1 = 1, rows = [[Num 1]]\<rparr>, feature_names = [''f0'']\<rparr>
     (Sized [0]) (Sized [0]) 10 = Inl (UnboundLocalError ''order_values'')"
  by (simp add: heatmap_defs)

subsection \<open>An explicit sample ordering\<close>

text \<open>
  C3, as stated, fails: an explicit sample ordering of length 1 on a matrix of 2 samples
  is accepted, and the plot receives the one row it names.
\<close>

theorem short_sample_order_accepted:
  "heatmap \<lparr>sv_values = \<lparr>shape1 = 1, rows = [[Num 1], [Num 2]]\<rparr>, feature_names = [''f0'']\<rparr>
     (Strategy (\<lambda>a ax. Inr ([0], [Num 1]))) (Sized [1]) 10 =
   Inr \<lparr>plot_values = \<lparr>shape1 = 1, rows = [[Num 2]]\<rparr>, ytick_labels = [''f0''],
        final_order_values = [Num 1], fig_height = 3, aspect = 7 / 10,
        vmin = Num (- 2), vmax = Num 2, fx_line = [Num (- (5 / 2))],
        bar_widths = [Num (1 / 20)]\<rparr>"
  by (simp add: heatmap_defs)

text \<open>
  C3, amended. The length of an explicit sample ordering is not checked. Where the
  feature ordering indexes the labels, the columns and the scores, reindexing with an
  explicit sample ordering \<open>idx\<close> of any length succeeds exactly when every entry of
  \<open>idx\<close> is an index numpy accepts for the sample axis; the result then has one row per
  entry of \<open>idx\<close>, in that order. Otherwise it raises IndexError.
\<close>

theorem explicit_sample_order_any_length:
  assumes "take_idx (feature_names shap_values) input_order = Inr names"
    and "np_indices (shape1 (sv_values shap_values)) input_order = Inr js"
    and "take_idx ov input_order = Inr ovs"
  shows "resolve_sample_order (sv_values shap_values) (Sized idx) = Inr idx \<and>
         reindex shap_values input_order idx (Some ov) =
           (if list_all (valid_index (shape0 (sv_values shap_values))) idx
            then Inr (names,
                      \<lparr>shape1 = length js,
                       rows = map (\<lambda>i. map (\<lambda>j. rows (sv_values shap_values) !
                                  norm_index (shape0 (sv_values shap_values)) i ! j) js) idx\<rparr>,
                      ovs)
            else Inl IndexError)"
  using assms
  by (simp add: resolve_sample_order_def reindex_def take_rows_def take_cols_def take_idx_def
      shape0_def np_indices_valid np_indices_invalid)

theorem explicit_sample_order_any_length_witness:
  "take_idx (feature_names \<lparr>sv_values = \<lparr>shape1 = 1, rows = [[Num 1], [Num 2]]\<rparr>,
                            feature_names = [''f0'']\<rparr>) [0] = Inr [''f0''] \<and>
   np_indices (shape1 \<lparr>shape1 = 1, rows = [[Num 1], [Num 2]]\<rparr>) [0] = Inr [0] \<and>
   take_idx [Num 3] [0] = Inr [Num 3] \<and>
   reindex \<lparr>sv_values = \<lparr>shape1 = 1, rows = [[Num 1], [Num 2]]\<rparr>, feature_names = [''f0'']\<rparr>
     [0] [1, -2, 1] (Some [Num 3]) =
     Inr ([''f0''], \<lparr>shape1 = 1, rows = [[Num 2], [Num 1], [Num 2]]\<rparr>, [Num 3])"
  using explicit_sample_order_any_length
    [where shap_values = "\<lparr>sv_values = \<lparr>shape1 = 1, rows = [[Num 1], [Num 2]]\<rparr>,
                            feature_names = [''f0'']\<rparr>"
       and input_order = "[0]" and names = "[''f0'']" and js = "[0]" and ov = "[Num 3]"
       and ovs = "[Num 3]" and idx = "[1, -2, 1]"]
  by (simp add: take_idx_def np_index_def valid_index_def norm_index_def shape0_def)

subsection \<open>Unsupported orderings\<close>

text \<open>
  C7. An ordering that is neither a strategy nor a sized sequence raises the exception
  that names its argument: \<open>input_order\<close> first; \<open>sample_order\<close> once the feature ordering
  is resolved. Both are raised whatever the matrix, the labels and the display count
  are, so before line 52 indexes anything.
\<close>

theorem unsupported_ordering:
  "heatmap shap_values (Other s) sample_order max_display =
     Inl (Exception (''Unsupported input_order: '' @ s @ ''!'')) \<and>
   (\<forall>r. resolve_input_order (sv_values shap_values) input_order = Inr r \<longrightarrow>
      heatmap shap_values input_order (Other s) max_display =
        Inl (Exception (''Unsupported sample_order: '' @ s @ ''!'')))"
  by (auto simp: heatmap_def resolve_input_order_def resolve_sample_order_def)

theorem unsupported_ordering_witness:
  "resolve_input_order \<lparr>shape1 = 1, rows = [[Num 1]]\<rparr> (Sized [7]) = Inr ([7], None) \<and>
   heatmap \<lparr>sv_values = \<lparr>shape1 = 1, rows = [[Num 1]]\<rparr>, feature_names = []\<rparr>
     (Sized [7]) (Other ''3.5'') 10 = Inl (Exception ''Unsupported sample_order: 3.5!'') \<and>
   heatmap \<lparr>sv_values = \<lparr>shape1 = 1, rows = [[Num 1]]\<rparr>, feature_names = []\<rparr>
     (Other ''3.5'') (Other ''None'') 10 = Inl (Exception ''Unsupported input_order: 3.5!'')"
  using unsupported_ordering
    [where shap_values = "\<lparr>sv_values = \<lparr>shape1 = 1, rows = [[Num 1]]\<rparr>, feature_names = []\<rparr>"
       and s = "''3.5''" and input_order = "Sized [7]" and sample_order = "Other ''None''"
       and max_display = 10]
  by (simp add: resolve_input_order_def)

subsection \<open>The display count\<close>

text \<open>
  C8, as stated, fails: the function has no check of \<open>max_display\<close> and no error of its
  own for it. With \<open>max_display = 0\<close> on one sample and one feature, line 60 raises
  numpy's IndexError.
\<close>

theorem max_display_zero_index_error:
  "heatmap \<lparr>sv_values = \<lparr>shape1 = 1, rows = [[Num 1]]\<rparr>, feature_names = [''f0'']\<rparr>
     (Strategy (\<lambda>a ax. Inr ([0], [Num 1]))) (Strategy (\<lambda>a ax. Inr ([0], [Num 1]))) 0 =
   Inl IndexError"
  by (simp add: heatmap_defs)

text \<open>
  C8, amended. For every input with \<open>max_display < 1\<close> the function raises (an error of
  the orderings or of the reindexing, numpy's ValueError or IndexError in the collapsing
  branch, or ZeroDivisionError when there is no feature column): nothing is plotted
  with \<open>max_display < 1\<close>.
\<close>

theorem max_display_below_one_fails:
  assumes "max_display < 1"
  shows "\<exists>e. heatmap shap_values input_order sample_order max_display = Inl e"
proof (cases "resolve_input_order (sv_values shap_values) input_order")
  case (Inl e)
  then show ?thesis by (simp add: heatmap_def)
next
  case (Inr r)
  obtain io order_values where r: "r = (io, order_values)" by (cases r)
  show ?thesis
  proof (cases "resolve_sample_order (sv_values shap_values) sample_order")
    case (Inl e)
    with Inr r show ?thesis by (simp add: heatmap_def)
  next
    case so: (Inr so)
    show ?thesis
    proof (cases "reindex shap_values io so order_values")
      case (Inl e)
      with Inr r so show ?thesis by (simp add: heatmap_def)
    next
      case re: (Inr t)
      obtain names vals ovs where t: "t = (names, vals, ovs)" by (cases t)
      have h: "heatmap shap_values input_order sample_order max_display =
                 (case collapse vals names ovs max_display of
                    Inl e \<Rightarrow> Inl e
                  | Inr (vals', names', ovs') \<Rightarrow> plot_layout vals' names' ovs')"
        using Inr r so re t by (simp add: heatmap_def)
      show ?thesis
      proof (cases "int (shape1 vals) > max_display")
        case True
        with assms have "\<exists>e. collapse vals names ovs max_display = Inl e"
          by (simp add: collapse_def)
        with h show ?thesis by auto
      next
        case False
        with assms have z: "shape1 vals = 0" by simp
        from False have "collapse vals names ovs max_display = Inr (vals, names, ovs)"
          by (simp add: collapse_def)
        moreover obtain lo hi where "color_scale vals = Inr (lo, hi)"
          using color_scale_total by blast
        ultimately show ?thesis using h z by (simp add: plot_layout_def)
      qed
    qed
  qed
qed

theorem max_display_below_one_fails_witness:
  "(-1 :: int) < 1 \<and>
   heatmap \<lparr>sv_values = \<lparr>shape1 = 2, rows = [[Num 1, Num 2]]\<rparr>, feature_names = [''f0'', ''f1'']\<rparr>
     (Strategy (\<lambda>a ax. Inr ([1, 0], [Num 1, Num 2]))) (Sized [0]) (-1) = Inl ValueError"
  using max_display_below_one_fails
    [where max_display = "-1"
       and shap_values = "\<lparr>sv_values = \<lparr>shape1 = 2, rows = [[Num 1, Num 2]]\<rparr>,
                             feature_names = [''f0'', ''f1'']\<rparr>"
       and input_order = "Strategy (\<lambda>a ax. Inr ([1, 0], [Num 1, Num 2]))"
       and sample_order = "Sized [0]"]
  by (simp add: heatmap_defs)

subsection \<open>Collapsing\<close>

text \<open>
  C9. When the number of feature columns is at most \<open>max_display\<close>, collapsing returns
  the matrix, the labels and the scores as they are.
\<close>

theorem collapse_noop:
  "int (shape1 vals) \<le> max_display \<Longrightarrow>
     collapse vals names order_values max_display = Inr (vals, names, order_values)"
  by (simp add: collapse_def)

theorem collapse_noop_witness:
  "int (shape1 \<lparr>shape1 = 2, rows = [[Num 1, Num 2]]\<rparr>) \<le> 2 \<and>
   collapse \<lparr>shape1 = 2, rows = [[Num 1, Num 2]]\<rparr> [''a'', ''b''] [Num 3, Num 1] 2 =
     Inr (\<lparr>shape1 = 2, rows = [[Num 1, Num 2]]\<rparr>, [''a'', ''b''], [Num 3, Num 1])"
  using collapse_noop
    [where vals = "\<lparr>shape1 = 2, rows = [[Num 1, Num 2]]\<rparr>" and max_display = 2
       and names = "[''a'', ''b'']" and order_values = "[Num 3, Num 1]"]
  by simp

text \<open>
  C5. When there are more feature columns than \<open>max_display \<ge> 1\<close>, collapsing returns
  exactly \<open>max_display\<close> columns, labels and scores: the first \<open>max_display - 1\<close> of each
  are unchanged, the last column holds per sample the sum of the columns from
  \<open>max_display - 1\<close> on, the last score the sum of those scores, and the last label is
  \<open>"<k> other features"\<close> with \<open>k\<close> the number of features minus \<open>max_display\<close> plus one.
\<close>

theorem collapse_tail:
  assumes md: "1 \<le> max_display" "max_display < int (shape1 vals)"
    and wf: "wf_array vals"
    and len: "length names = shape1 vals" "length order_values = shape1 vals"
  shows "\<exists>vals' names' ovs'.
           collapse vals names order_values max_display = Inr (vals', names', ovs') \<and>
           shape1 vals' = nat max_display \<and> wf_array vals' \<and> shape0 vals' = shape0 vals \<and>
           length names' = nat max_display \<and> length ovs' = nat max_display \<and>
           (\<forall>j < nat max_display - 1.
              names' ! j = names ! j \<and> ovs' ! j = order_values ! j \<and>
              (\<forall>i < shape0 vals. rows vals' ! i ! j = rows vals ! i ! j)) \<and>
           (\<forall>i < shape0 vals.
              rows vals' ! i ! (nat max_display - 1) =
                np_sum (drop (nat max_display - 1) (rows vals ! i))) \<and>
           ovs' ! (nat max_display - 1) = np_sum (drop (nat max_display - 1) order_values) \<and>
           names' ! (nat max_display - 1) =
             str_nat (shape1 vals - nat max_display + 1) @ '' other features''"
proof -
  define k where "k = nat max_display - 1"
  define vals' where
    "vals' = \<lparr>shape1 = nat max_display, rows = map (\<lambda>r. take k r @ [np_sum (drop k r)]) (rows vals)\<rparr>"
  define names' where
    "names' = take k names @ [str_nat (shape1 vals - nat max_display + 1) @ '' other features'']"
  define ovs' where "ovs' = take k order_values @ [np_sum (drop k order_values)]"
  from md have k: "nat (max_display - 1) = k" "Suc k = nat max_display" "k < shape1 vals"
    by (simp_all add: k_def nat_diff_distrib)
  have kept: "take (nat max_display) names \<noteq> []"
    using md len by auto
  have bl: "butlast (take (nat max_display) names) = take k names"
    using md len by (simp add: butlast_take k_def)
  have lbl: "nat (int (shape1 vals) - max_display + 1) = shape1 vals - nat max_display + 1"
    using md by linarith
  have res: "collapse vals names order_values max_display = Inr (vals', names', ovs')"
    using md kept by (simp add: collapse_def Let_def k bl lbl vals'_def names'_def ovs'_def)
  have rowlen: "\<And>i. i < shape0 vals \<Longrightarrow> k < length (rows vals ! i)"
    using wf k(3) by (simp add: wf_array_rows)
  have wf': "wf_array vals'"
    using wf k by (auto simp: wf_array_def vals'_def list_all_iff)
  have sh: "shape1 vals' = nat max_display" "shape0 vals' = shape0 vals"
    by (simp_all add: vals'_def shape0_def)
  have ln: "length names' = nat max_display" "length ovs' = nat max_display"
    using k len by (simp_all add: names'_def ovs'_def)
  have keep: "\<forall>j < k. names' ! j = names ! j \<and> ovs' ! j = order_values ! j \<and>
              (\<forall>i < shape0 vals. rows vals' ! i ! j = rows vals ! i ! j)"
    using k len rowlen by (auto simp: names'_def ovs'_def vals'_def shape0_def nth_append)
  have lastcol: "\<forall>i < shape0 vals. rows vals' ! i ! k = np_sum (drop k (rows vals ! i))"
    using rowlen by (auto simp: vals'_def shape0_def nth_append)
  have lastov: "ovs' ! k = np_sum (drop k order_values)"
    using k len by (simp add: ovs'_def nth_append)
  have lastname: "names' ! k = str_nat (shape1 vals - nat max_display + 1) @ '' other features''"
    using k len by (simp add: names'_def nth_append)
  from res wf' sh ln keep lastcol lastov lastname show ?thesis
    unfolding k_def by blast
qed

theorem collapse_tail_witness:
  "(1 :: int) \<le> 5 \<and>
   5 < int (shape1 \<lparr>shape1 = 12, rows =
     [[Num 12, Num 11, Num 10, Num 9, Num 8, Num 7, Num 6, Num 5, Num 4, Num 3, Num 2, Num 1],
      [Num 1, Num 1, Num 1, Num 1, Num 1, Num 1, Num 1, Num 1, Num 1, Num 1, Num 1, Num 1],
      [Num 0, Num 0, Num 0, Num 0, Num (- 1), Num 0, Num 0, Num 0, Num 0, Num 0, Num 0, Num 3]]\<rparr>) \<and>
   wf_array \<lparr>shape1 = 12, rows =
     [[Num 12, Num 11, Num 10, Num 9, Num 8, Num 7, Num 6, Num 5, Num 4, Num 3, Num 2, Num 1],
      [Num 1, Num 1, Num 1, Num 1, Num 1, Num 1, Num 1, Num 1, Num 1, Num 1, Num 1, Num 1],
      [Num 0, Num 0, Num 0, Num 0, Num (- 1), Num 0, Num 0, Num 0, Num 0, Num 0, Num 0, Num 3]]\<rparr> \<and>
   collapse \<lparr>shape1 = 12, rows =
     [[Num 12, Num 11, Num 10, Num 9, Num 8, Num 7, Num 6, Num 5, Num 4, Num 3, Num 2, Num 1],
      [Num 1, Num 1, Num 1, Num 1, Num 1, Num 1, Num 1, Num 1, Num 1, Num 1, Num 1, Num 1],
      [Num 0, Num 0, Num 0, Num 0, Num (- 1), Num 0, Num 0, Num 0, Num 0, Num 0, Num 0, Num 3]]\<rparr>
     [''a'', ''b'', ''c'', ''d'', ''e'', ''f'', ''g'', ''h'', ''i'', ''j'', ''k'', ''l'']
     [Num 12, Num 11, Num 10, Num 9, Num 8, Num 7, Num 6, Num 5, Num 4, Num 3, Num 2, Num 1] 5 =
   Inr (\<lparr>shape1 = 5, rows =
          [[Num 12, Num 11, Num 10, Num 9, Num 36],
           [Num 1, Num 1, Num 1, Num 1, Num 8],
           [Num 0, Num 0, Num 0, Num 0, Num 2]]\<rparr>,
        [''a'', ''b'', ''c'', ''d'', ''8 other features''],
        [Num 12, Num 11, Num 10, Num 9, Num 36])"
  using collapse_tail
    [where max_display = 5
       and vals = "\<lparr>shape1 = 12, rows =
     [[Num 12, Num 11, Num 10, Num 9, Num 8, Num 7, Num 6, Num 5, Num 4, Num 3, Num 2, Num 1],
      [Num 1, Num 1, Num 1, Num 1, Num 1, Num 1, Num 1, Num 1, Num 1, Num 1, Num 1, Num 1],
      [Num 0, Num 0, Num 0, Num 0, Num (- 1), Num 0, Num 0, Num 0, Num 0, Num 0, Num 0, Num 3]]\<rparr>"
       and names = "[''a'', ''b'', ''c'', ''d'', ''e'', ''f'', ''g'', ''h'', ''i'', ''j'', ''k'', ''l'']"
       and order_values = "[Num 12, Num 11, Num 10, Num 9, Num 8, Num 7, Num 6, Num 5, Num 4, Num 3, Num 2, Num 1]"]
  by (simp add: collapse_def wf_array_def)

subsection \<open>The colour scale\<close>

lemma lerp_at_bounds:
  assumes "sorted xs" and "xs \<noteq> []" and "0 \<le> h" and "h \<le> real (length xs - 1)"
  shows "xs ! nat \<lfloor>h\<rfloor> \<le> lerp_at xs h"
    and "lerp_at xs h \<le> xs ! min (nat \<lfloor>h\<rfloor> + 1) (length xs - 1)"
proof -
  define lo where "lo = nat \<lfloor>h\<rfloor>"
  define hi where "hi = min (lo + 1) (length xs - 1)"
  define t where "t = h - real lo"
  have lo_le: "real lo \<le> h" using assms(3) by (simp add: lo_def)
  have "real lo \<le> real (length xs - 1)" using lo_le assms(4) by linarith
  then have lo_n: "lo \<le> length xs - 1" by simp
  have t: "0 \<le> t" "t \<le> 1"
    using lo_le assms(3) by (simp_all add: t_def lo_def) linarith
  have "lo \<le> hi" using lo_n by (simp add: hi_def)
  moreover have "hi < length xs" using assms(2) by (cases xs) (simp_all add: hi_def)
  ultimately have ab: "xs ! lo \<le> xs ! hi"
    using assms(1) by (simp add: sorted_nth_mono)
  have eq: "lerp_at xs h = xs ! lo * (1 - t) + xs ! hi * t"
    by (simp add: lerp_at_def Let_def lo_def hi_def t_def)
  have "xs ! lo * (1 - t) + xs ! hi * t - xs ! lo = t * (xs ! hi - xs ! lo)"
    by (simp add: algebra_simps)
  moreover have "0 \<le> t * (xs ! hi - xs ! lo)" using t ab by simp
  ultimately show "xs ! nat \<lfloor>h\<rfloor> \<le> lerp_at xs h"
    unfolding eq lo_def [symmetric] by linarith
  have "xs ! hi - (xs ! lo * (1 - t) + xs ! hi * t) = (1 - t) * (xs ! hi - xs ! lo)"
    by (simp add: algebra_simps)
  moreover have "0 \<le> (1 - t) * (xs ! hi - xs ! lo)" using t ab by simp
  ultimately show "lerp_at xs h \<le> xs ! min (nat \<lfloor>h\<rfloor> + 1) (length xs - 1)"
    unfolding eq lo_def [symmetric] hi_def [symmetric] by linarith
qed

lemma lerp_at_mono:
  assumes s: "sorted xs" and ne: "xs \<noteq> []" and h1: "0 \<le> h1" and h12: "h1 \<le> h2"
    and h2: "h2 \<le> real (length xs - 1)"
  shows "lerp_at xs h1 \<le> lerp_at xs h2"
proof (cases "\<lfloor>h1\<rfloor> = \<lfloor>h2\<rfloor>")
  case True
  define lo where "lo = nat \<lfloor>h1\<rfloor>"
  define hi where "hi = min (lo + 1) (length xs - 1)"
  have "real lo \<le> h1" using h1 by (simp add: lo_def)
  then have "real lo \<le> real (length xs - 1)" using h12 h2 by linarith
  then have "lo \<le> hi" by (simp add: hi_def)
  moreover have "hi < length xs" using ne by (cases xs) (simp_all add: hi_def)
  ultimately have ab: "xs ! lo \<le> xs ! hi" using s by (simp add: sorted_nth_mono)
  have "lerp_at xs h2 - lerp_at xs h1 = (xs ! hi - xs ! lo) * (h2 - h1)"
    using True by (simp add: lerp_at_def Let_def lo_def hi_def algebra_simps)
  moreover have "0 \<le> (xs ! hi - xs ! lo) * (h2 - h1)" using ab h12 by simp
  ultimately show ?thesis by linarith
next
  case False
  have "\<lfloor>h1\<rfloor> \<le> \<lfloor>h2\<rfloor>" using h12 by (rule floor_mono)
  with False have lt: "\<lfloor>h1\<rfloor> < \<lfloor>h2\<rfloor>" by simp
  have nn: "0 \<le> \<lfloor>h1\<rfloor>" using h1 by simp
  have lo2: "nat \<lfloor>h1\<rfloor> + 1 \<le> nat \<lfloor>h2\<rfloor>" using lt nn by linarith
  have "real (nat \<lfloor>h2\<rfloor>) \<le> h2" using h1 h12 by simp
  then have "real (nat \<lfloor>h2\<rfloor>) \<le> real (length xs - 1)" using h2 by linarith
  then have lo2n: "nat \<lfloor>h2\<rfloor> \<le> length xs - 1" by simp
  then have "nat \<lfloor>h2\<rfloor> < length xs" using ne by (cases xs) simp_all
  moreover have "min (nat \<lfloor>h1\<rfloor> + 1) (length xs - 1) \<le> nat \<lfloor>h2\<rfloor>" using lo2 by simp
  ultimately have mid: "xs ! min (nat \<lfloor>h1\<rfloor> + 1) (length xs - 1) \<le> xs ! nat \<lfloor>h2\<rfloor>"
    using s by (simp add: sorted_nth_mono)
  have "lerp_at xs h1 \<le> xs ! min (nat \<lfloor>h1\<rfloor> + 1) (length xs - 1)"
    using s ne h1 h12 h2 by (intro lerp_at_bounds(2)) simp_all
  moreover have "xs ! nat \<lfloor>h2\<rfloor> \<le> lerp_at xs h2"
    using s ne h1 h12 h2 by (intro lerp_at_bounds(1)) simp_all
  ultimately show ?thesis using mid by linarith
qed

lemma scale_of_percentiles:
  assumes "p1 \<le> p99"
  shows "py_min (Num p1) (np_neg (Num p99)) = Num (- max \<bar>p1\<bar> \<bar>p99\<bar>)"
    and "py_max (np_neg (Num p1)) (Num p99) = Num (max \<bar>p1\<bar> \<bar>p99\<bar>)"
  using assms by (auto simp: py_min_def py_max_def max_def abs_if)

lemma color_scale_all_nan:
  "drop_nan (flatten vals) = [] \<Longrightarrow> color_scale vals = Inr (NaN, NaN)"
  by (simp add: color_scale_def nanpercentile_def py_min_def py_max_def)

text \<open>
  C6, as stated, fails: the scale of a matrix without a number (here the single entry
  NaN) is NaN on both sides, and NaN is not equal to the negation of NaN.
\<close>

theorem all_nan_scale_not_symmetric:
  "heatmap \<lparr>sv_values = \<lparr>shape1 = 1, rows = [[NaN]]\<rparr>, feature_names = [''f0'']\<rparr>
     (Strategy (\<lambda>a ax. Inr ([0], [Num 1]))) (Sized [0]) 10 =
   Inr \<lparr>plot_values = \<lparr>shape1 = 1, rows = [[NaN]]\<rparr>, ytick_labels = [''f0''],
        final_order_values = [Num 1], fig_height = 3, aspect = 7 / 10,
        vmin = NaN, vmax = NaN, fx_line = [NaN],
        bar_widths = [Num (1 / 20)]\<rparr> \<and>
   \<not> np_eq NaN (np_neg NaN)"
  by (simp add: heatmap_defs)

text \<open>
  C6, amended. For every matrix with at least one entry that is not NaN, the two
  percentiles \<open>p1\<close> and \<open>p99\<close> of its entries that are not NaN are numbers, and the scale
  is \<open>(-bound, bound)\<close> with \<open>bound = max(|p1|, |p99|)\<close>: its upper bound equals the negation
  of its lower bound. (With no such entry both bounds are NaN, \<open>color_scale_all_nan\<close>.)
\<close>

theorem color_scale_symmetric:
  assumes "drop_nan (flatten vals) \<noteq> []"
  shows "\<exists>p1 p99 lo hi.
           nanpercentile (flatten vals) 1 = Inr (Num p1) \<and>
           nanpercentile (flatten vals) 99 = Inr (Num p99) \<and>
           color_scale vals = Inr (lo, hi) \<and>
           lo = Num (- max \<bar>p1\<bar> \<bar>p99\<bar>) \<and> hi = Num (max \<bar>p1\<bar> \<bar>p99\<bar>) \<and>
           np_eq hi (np_neg lo)"
proof -
  define xs where "xs = sort (drop_nan (flatten vals))"
  define n where "n = real (length xs - 1)"
  have ne: "xs \<noteq> []" using assms
    by (metis xs_def length_sort length_0_conv)
  have s: "sorted xs" by (simp add: xs_def)
  have n0: "0 \<le> n" by (simp add: n_def)
  have p1: "nanpercentile (flatten vals) 1 = Inr (Num (lerp_at xs (1 / 100 * n)))"
    using ne by (simp add: nanpercentile_def Let_def xs_def [symmetric] n_def)
  have p99: "nanpercentile (flatten vals) 99 = Inr (Num (lerp_at xs (99 / 100 * n)))"
    using ne by (simp add: nanpercentile_def Let_def xs_def [symmetric] n_def)
  have le: "lerp_at xs (1 / 100 * n) \<le> lerp_at xs (99 / 100 * n)"
    using s ne n0 by (intro lerp_at_mono) (simp_all add: n_def)
  show ?thesis
    using p1 p99 scale_of_percentiles [OF le]
    by (simp add: color_scale_def)
qed

theorem color_scale_symmetric_witness:
  "drop_nan (flatten \<lparr>shape1 = 2, rows = [[Num 1, Num (- 3)], [NaN, NaN]]\<rparr>) \<noteq> [] \<and>
   nanpercentile (flatten \<lparr>shape1 = 2, rows = [[Num 1, Num (- 3)], [NaN, NaN]]\<rparr>) 1 =
     Inr (Num (- (74 / 25))) \<and>
   nanpercentile (flatten \<lparr>shape1 = 2, rows = [[Num 1, Num (- 3)], [NaN, NaN]]\<rparr>) 99 =
     Inr (Num (24 / 25)) \<and>
   color_scale \<lparr>shape1 = 2, rows = [[Num 1, Num (- 3)], [NaN, NaN]]\<rparr> =
     Inr (Num (- (74 / 25)), Num (74 / 25))"
  using color_scale_symmetric [where vals = "\<lparr>shape1 = 2, rows = [[Num 1, Num (- 3)], [NaN, NaN]]\<rparr>"]
  by (simp add: color_scale_def nanpercentile_def flatten_def lerp_at_def py_min_def py_max_def)

subsection \<open>The two overlays\<close>

lemma np_max_nonempty: "xs \<noteq> [] \<Longrightarrow> \<exists>m. np_max xs = Inr m"
  by (induction xs rule: np_max.induct) auto

lemma np_between_widen:
  "np_between (- a) a x \<Longrightarrow> a \<le> b \<Longrightarrow> np_between (- b) b x"
  by (cases x) auto

lemma np_abs_max_bound:
  "np_abs_max xs = Inr (Num m) \<Longrightarrow> 0 \<le> m \<and> list_all (np_between (- m) m) xs"
proof (induction xs arbitrary: m)
  case Nil
  then show ?case by (simp add: np_abs_max_def)
next
  case (Cons x xs)
  show ?case
  proof (cases xs)
    case Nil
    with Cons.prems show ?thesis
      by (cases x) (auto simp: np_abs_max_def)
  next
    case (Cons y ys)
    with Cons.prems obtain m' where
      m': "np_abs_max xs = Inr m'" "np_maximum (np_abs x) m' = Num m"
      by (auto simp: np_abs_max_def split: sum.splits)
    from m'(2) obtain a b where ab: "np_abs x = Num a" "m' = Num b" "m = max a b"
      by (cases "np_abs x"; cases m') auto
    from ab(1) obtain z where z: "x = Num z" "a = \<bar>z\<bar>" by (cases x) auto
    from Cons.IH [of b] m'(1) ab(2) have b: "0 \<le> b" "list_all (np_between (- b) b) xs"
      by simp_all
    have "list_all (np_between (- m) m) xs"
      using b(2) ab(3) by (auto simp: list_all_iff intro: np_between_widen)
    moreover have "np_between (- m) m x" using z ab(3) by auto
    moreover have "0 \<le> m" using b(1) ab(3) by simp
    ultimately show ?thesis by simp
  qed
qed

lemma np_abs_max_zero:
  assumes "np_abs_max xs = Inr (Num 0)"
  shows "list_all (\<lambda>x. x = Num 0) xs"
proof -
  have "np_between (- 0) 0 x \<Longrightarrow> x = Num 0" for x by (cases x) auto
  with np_abs_max_bound [OF assms] show ?thesis by (auto simp: list_all_iff)
qed

lemma np_abs_max_num:
  "list_all is_num xs \<Longrightarrow> xs \<noteq> [] \<Longrightarrow> \<exists>m. np_abs_max xs = Inr (Num m)"
proof (induction xs)
  case Nil
  then show ?case by simp
next
  case (Cons x xs)
  from Cons.prems obtain z where x: "x = Num z" by (cases x) simp_all
  show ?case
  proof (cases xs)
    case Nil
    with x show ?thesis by (simp add: np_abs_max_def)
  next
    case (Cons y ys)
    with Cons.IH Cons.prems obtain m where "np_abs_max xs = Inr (Num m)" by auto
    with x Cons show ?thesis by (simp add: np_abs_max_def)
  qed
qed

text \<open>
  C4, as stated, fails for the bars: they are scaled by the number of samples over 20
  (line 101), so with 21 samples and one feature the bar is 21/20.
\<close>

theorem bars_exceed_one:
  "map_sum id bar_widths
     (heatmap
        \<lparr>sv_values = \<lparr>shape1 = 1, rows =
           [[Num 1], [Num 1], [Num 1], [Num 1], [Num 1], [Num 1], [Num 1],
            [Num 1], [Num 1], [Num 1], [Num 1], [Num 1], [Num 1], [Num 1],
            [Num 1], [Num 1], [Num 1], [Num 1], [Num 1], [Num 1], [Num 1]]\<rparr>,
          feature_names = [''f0'']\<rparr>
        (Strategy (\<lambda>a ax. Inr ([0], [Num 1])))
        (Sized [0, 1, 2, 3, 4, 5, 6, 7, 8, 9, 10, 11, 12, 13, 14, 15, 16, 17, 18, 19, 20])
        10) = Inr [Num (21 / 20)] \<and>
   \<not> np_between (- 1) 1 (Num (21 / 20))"
  by (simp add: heatmap_defs)

text \<open>
  C4, amended. Let \<open>fx\<close> be the per-sample means that line 95 computed. When they are
  numbers (none is NaN or infinite), at least one in count and not all zero, every
  element of the normalised mean curve \<open>-fx / max|fx|\<close> lies in \<open>[-1, 1]\<close>. When the scores
  are numbers, at least one in count and not all zero, every bar width lies in
  \<open>[-n/20, n/20]\<close>, with \<open>n\<close> the number of samples (so in \<open>[-1, 1]\<close> only up to 20 samples).
\<close>

theorem normalized_overlays_bounded:
  assumes fin: "list_all is_num fx" "fx \<noteq> []"
    and nz: "np_abs_max fx \<noteq> Inr (Num 0)"
    and ofin: "list_all is_num order_values" "order_values \<noteq> []"
    and onz: "np_abs_max order_values \<noteq> Inr (Num 0)"
  shows "\<exists>curve widths.
           normalized_fx fx = Inr curve \<and>
           list_all (np_between (- 1) 1) curve \<and>
           bars order_values n = Inr widths \<and>
           list_all (np_between (- (real n / 20)) (real n / 20)) widths"
proof -
  from np_abs_max_num [OF fin] obtain m where
    m: "np_abs_max fx = Inr (Num m)" by blast
  from np_abs_max_bound [OF m] have mb: "0 \<le> m" "list_all (np_between (- m) m) fx"
    by simp_all
  from m mb(1) nz have mpos: "0 < m" by (cases "m = 0") simp_all
  have c1: "np_between (- 1) 1 (np_div (np_neg x) (Num m))" if "np_between (- m) m x" for x
  proof (cases x)
    case (Num y)
    with that have "- m \<le> y" "y \<le> m" by simp_all
    then have "- 1 \<le> - y / m" "- y / m \<le> 1"
      using mpos by (simp_all add: pos_le_divide_eq pos_divide_le_eq)
    then show ?thesis using Num mpos by simp
  next
    case NaN
    with that show ?thesis by simp
  qed
  have curve: "normalized_fx fx = Inr (map (\<lambda>x. np_div (np_neg x) (Num m)) fx)"
    using m by (simp add: normalized_fx_def)
  have cb: "list_all (np_between (- 1) 1) (map (\<lambda>x. np_div (np_neg x) (Num m)) fx)"
    using mb(2) c1 by (auto simp: list_all_iff)
  from np_abs_max_num [OF ofin] obtain k where
    k: "np_abs_max order_values = Inr (Num k)" by blast
  from np_abs_max_bound [OF k] have kb: "0 \<le> k" "list_all (np_between (- k) k) order_values"
    by simp_all
  from k kb(1) onz have kpos: "0 < k" by (cases "k = 0") simp_all
  define c where "c = real n"
  have c0: "0 \<le> c" by (simp add: c_def)
  have c2: "np_between (- (c / 20)) (c / 20) (np_div (np_mul (np_div x (Num k)) (Num c)) (Num 20))"
    if "np_between (- k) k x" for x
  proof (cases x)
    case (Num y)
    with that have "- k \<le> y" "y \<le> k" by simp_all
    then have q: "- 1 \<le> y / k" "y / k \<le> 1"
      using kpos by (simp_all add: pos_le_divide_eq pos_divide_le_eq)
    define w where "w = y / k * c"
    have "(- 1) * c \<le> y / k * c" using q(1) c0 by (rule mult_right_mono)
    moreover have "y / k * c \<le> 1 * c" using q(2) c0 by (rule mult_right_mono)
    ultimately have "- c \<le> w" "w \<le> c" by (simp_all add: w_def)
    then have "- (c / 20) \<le> w / 20" "w / 20 \<le> c / 20" by simp_all
    moreover have "np_div (np_mul (np_div x (Num k)) (Num c)) (Num 20) = Num (w / 20)"
      using Num kpos by (simp add: w_def)
    ultimately show ?thesis by simp
  next
    case NaN
    with that show ?thesis by simp
  qed
  have widths: "bars order_values n =
      Inr (map (\<lambda>x. np_div (np_mul (np_div x (Num k)) (Num c)) (Num 20)) order_values)"
    using k by (simp add: bars_def c_def)
  have wb: "list_all (np_between (- (c / 20)) (c / 20))
      (map (\<lambda>x. np_div (np_mul (np_div x (Num k)) (Num c)) (Num 20)) order_values)"
    using kb(2) c2 by (auto simp: list_all_iff)
  from curve cb widths wb show ?thesis unfolding c_def by blast
qed

text \<open>
  The witness is the matrix \<open>[[1, 3], [-4, 0]]\<close> with the scores \<open>[3, -1]\<close>: its means
  \<open>[2, -2]\<close> give the curve \<open>[-1, 1]\<close>, and its two samples the bars \<open>[1/10, -1/30]\<close>.
\<close>

theorem normalized_overlays_bounded_witness:
  "mean_fx \<lparr>shape1 = 2, rows = [[Num 1, Num 3], [Num (- 4), Num 0]]\<rparr> = [Num 2, Num (- 2)] \<and>
   list_all is_num [Num 2, Num (- 2)] \<and>
   np_abs_max [Num 2, Num (- 2)] = Inr (Num 2) \<and>
   list_all is_num [Num 3, Num (- 1)] \<and>
   np_abs_max [Num 3, Num (- 1)] = Inr (Num 3) \<and>
   normalized_fx [Num 2, Num (- 2)] = Inr [Num (- 1), Num 1] \<and>
   bars [Num 3, Num (- 1)] 2 = Inr [Num (1 / 10), Num (- (1 / 30))]"
  using normalized_overlays_bounded
    [where fx = "[Num 2, Num (- 2)]" and order_values = "[Num 3, Num (- 1)]" and n = 2]
  by (simp add: mean_fx_def np_abs_max_def normalized_fx_def bars_def)

subsection \<open>The all-zero matrix\<close>

lemma np_sum_zero: "list_all (\<lambda>x. x = Num 0) r \<Longrightarrow> np_sum r = Num 0"
  by (induction r) simp_all

lemma drop_nan_zero:
  "list_all (\<lambda>x. x = Num 0) a \<Longrightarrow> drop_nan a = replicate (length a) 0"
  by (induction a) simp_all

lemma nanpercentile_zero:
  assumes z: "list_all (\<lambda>x. x = Num 0) a" and ne: "a \<noteq> []" and q: "0 \<le> q" "q \<le> 100"
  shows "nanpercentile a q = Inr (Num 0)"
proof -
  define xs where "xs = sort (drop_nan a)"
  define h where "h = q / 100 * real (length xs - 1)"
  have len: "length xs = length a" using z by (simp add: xs_def drop_nan_zero)
  with ne have xne: "xs \<noteq> []" by auto
  have "set xs \<subseteq> {0}" using z by (auto simp: xs_def drop_nan_zero)
  then have nth0: "xs ! i = 0" if "i < length xs" for i
    using that nth_mem by fastforce
  have h0: "0 \<le> h" using q by (simp add: h_def)
  have "q / 100 \<le> 1" using q by simp
  then have "q / 100 * real (length xs - 1) \<le> 1 * real (length xs - 1)"
    by (intro mult_right_mono) simp_all
  then have hn: "h \<le> real (length xs - 1)" by (simp add: h_def)
  have "real (nat \<lfloor>h\<rfloor>) \<le> h" using h0 by simp
  then have "real (nat \<lfloor>h\<rfloor>) \<le> real (length xs - 1)" using hn by linarith
  then have "nat \<lfloor>h\<rfloor> \<le> length xs - 1" by simp
  then have lo: "nat \<lfloor>h\<rfloor> < length xs" using xne by (cases xs) simp_all
  have hi: "min (nat \<lfloor>h\<rfloor> + 1) (length xs - 1) < length xs"
    using xne by (cases xs) simp_all
  have "lerp_at xs h = 0"
    using nth0 [OF lo] nth0 [OF hi] by (simp add: lerp_at_def Let_def)
  then have "lerp_at xs (q / 100 * real (length xs - 1)) = 0" by (simp only: h_def)
  moreover have "nanpercentile a q = Inr (Num (lerp_at xs (q / 100 * real (length xs - 1))))"
    using q xne unfolding nanpercentile_def Let_def xs_def [symmetric] by auto
  ultimately show ?thesis by simp
qed

lemma color_scale_zero:
  assumes "list_all (\<lambda>x. x = Num 0) (flatten vals)" and "flatten vals \<noteq> []"
  shows "color_scale vals = Inr (Num 0, Num 0)"
  using nanpercentile_zero [OF assms, of 1] nanpercentile_zero [OF assms, of 99]
  by (simp add: color_scale_def py_min_def py_max_def)

lemma map_const_replicate: "list_all (\<lambda>x. f x = c) xs \<Longrightarrow> map f xs = replicate (length xs) c"
  by (induction xs) simp_all

lemma mean_fx_zero:
  assumes "all_zero vals" and "shape1 vals \<noteq> 0"
  shows "mean_fx vals = replicate (shape0 vals) (Num 0)"
proof -
  have "list_all (\<lambda>r. np_div (np_sum r) (Num (real (shape1 vals))) = Num 0) (rows vals)"
    using assms by (auto simp: all_zero_def list_all_iff np_sum_zero)
  then show ?thesis
    unfolding mean_fx_def shape0_def by (rule map_const_replicate)
qed

lemma np_max_replicate: "0 < n \<Longrightarrow> np_max (replicate n (Num 0)) = Inr (Num 0)"
proof (induction n)
  case 0
  then show ?case by simp
next
  case (Suc n)
  show ?case
  proof (cases n)
    case 0
    then show ?thesis by simp
  next
    case (Suc k)
    with Suc.IH show ?thesis by simp
  qed
qed

lemma normalized_fx_zero:
  "0 < n \<Longrightarrow> normalized_fx (replicate n (Num 0)) = Inr (replicate n NaN)"
  by (simp add: normalized_fx_def np_abs_max_def np_max_replicate)

lemma bars_nonempty: "order_values \<noteq> [] \<Longrightarrow> \<exists>w. bars order_values n = Inr w"
proof -
  assume "order_values \<noteq> []"
  then have "map np_abs order_values \<noteq> []" by simp
  then obtain m where "np_max (map np_abs order_values) = Inr m"
    using np_max_nonempty by blast
  then show ?thesis by (simp add: bars_def np_abs_max_def)
qed

lemma plot_layout_zero:
  assumes z: "all_zero vals" and wf: "wf_array vals" and s1: "shape1 vals \<noteq> 0"
    and s0: "rows vals \<noteq> []" and ov: "order_values \<noteq> []"
  shows "\<exists>L. plot_layout vals names order_values = Inr L \<and>
             vmin L = Num 0 \<and> vmax L = Num 0 \<and> fx_line L = replicate (shape0 vals) NaN"
proof -
  have fz: "list_all (\<lambda>x. x = Num 0) (flatten vals)"
    using z by (auto simp: all_zero_def flatten_def list_all_iff)
  obtain r rs where rs: "rows vals = r # rs" using s0 by (cases "rows vals") auto
  with wf have "length r = shape1 vals" by (simp add: wf_array_def)
  with s1 have "r \<noteq> []" by auto
  with rs have fne: "flatten vals \<noteq> []" by (simp add: flatten_def)
  have cs: "color_scale vals = Inr (Num 0, Num 0)"
    using fz fne by (rule color_scale_zero)
  have n: "0 < shape0 vals" using s0 by (simp add: shape0_def)
  have cv: "normalized_fx (mean_fx vals) = Inr (replicate (shape0 vals) NaN)"
    using mean_fx_zero [OF z s1] normalized_fx_zero [OF n] by simp
  obtain w where w: "bars order_values (shape0 vals) = Inr w"
    using bars_nonempty [OF ov] by blast
  show ?thesis
    using cs s1 cv w by (simp add: plot_layout_def)
qed

lemma collapse_zero:
  assumes z: "all_zero vals" and wf: "wf_array vals" and md: "1 \<le> max_display"
    and ln: "length names = shape1 vals" and s1: "shape1 vals \<noteq> 0"
    and ov: "order_values \<noteq> []"
  shows "\<exists>vals' names' ovs'.
           collapse vals names order_values max_display = Inr (vals', names', ovs') \<and>
           all_zero vals' \<and> wf_array vals' \<and> shape1 vals' \<noteq> 0 \<and>
           shape0 vals' = shape0 vals \<and> ovs' \<noteq> []"
proof (cases "int (shape1 vals) > max_display")
  case False
  with assms show ?thesis by (simp add: collapse_def)
next
  case True
  define k where "k = nat (max_display - 1)"
  define vals' where
    "vals' = \<lparr>shape1 = nat max_display, rows = map (\<lambda>r. take k r @ [np_sum (drop k r)]) (rows vals)\<rparr>"
  have kept: "take (nat max_display) names \<noteq> []" using True md ln by auto
  have k: "Suc k = nat max_display" "k < shape1 vals" using True md by (simp_all add: k_def)
  have "\<exists>names' ovs'. collapse vals names order_values max_display = Inr (vals', names', ovs') \<and> ovs' \<noteq> []"
    using True md kept by (simp add: collapse_def Let_def k_def vals'_def)
  moreover have "all_zero vals'"
  proof -
    have "list_all (\<lambda>x. x = Num 0) (take k r @ [np_sum (drop k r)])"
      if "list_all (\<lambda>x. x = Num 0) r" for r
    proof -
      from that have "list_all (\<lambda>x. x = Num 0) (take k r)" "list_all (\<lambda>x. x = Num 0) (drop k r)"
        by (auto simp: list_all_iff dest: in_set_takeD in_set_dropD)
      then show ?thesis by (simp add: np_sum_zero)
    qed
    with z show ?thesis by (auto simp: all_zero_def vals'_def list_all_iff)
  qed
  moreover have "wf_array vals'"
    using wf k by (auto simp: wf_array_def vals'_def list_all_iff)
  moreover have "shape1 vals' \<noteq> 0" "shape0 vals' = shape0 vals"
    using md by (simp_all add: vals'_def shape0_def)
  ultimately show ?thesis by blast
qed

lemma reindex_zero:
  assumes z: "all_zero (sv_values shap_values)" and wf: "wf_array (sv_values shap_values)"
    and r: "reindex shap_values io so ov = Inr (names, vals, ovs)"
  shows "all_zero vals \<and> wf_array vals \<and> shape1 vals = length io \<and> shape0 vals = length so \<and>
         length names = length io \<and> length ovs = length io"
proof -
  define a where "a = sv_values shap_values"
  from r obtain ns where ns: "np_indices (length (feature_names shap_values)) io = Inr ns"
      "names = map (\<lambda>j. feature_names shap_values ! j) ns"
    by (auto simp: reindex_def take_idx_def split: sum.splits option.splits)
  from r obtain is' where is': "np_indices (length (rows a)) so = Inr is'"
    by (auto simp: reindex_def take_rows_def take_idx_def a_def split: sum.splits option.splits)
  from r is' obtain js where js: "np_indices (shape1 a) io = Inr js"
    by (auto simp: reindex_def take_rows_def take_cols_def take_idx_def a_def
        split: sum.splits option.splits)
  from r is' js have vals: "vals = \<lparr>shape1 = length js,
      rows = map (\<lambda>r. map (\<lambda>j. r ! j) js) (map (\<lambda>i. rows a ! i) is')\<rparr>"
    by (auto simp: reindex_def take_rows_def take_cols_def take_idx_def a_def
        split: sum.splits option.splits)
  from r obtain ov' os where os: "ov = Some ov'" "np_indices (length ov') io = Inr os"
      "ovs = map (\<lambda>j. ov' ! j) os"
    by (auto simp: reindex_def take_idx_def split: sum.splits option.splits)
  have ib: "list_all (\<lambda>i. i < length (rows a)) is'" using is' by (rule np_indices_bound)
  have jb: "list_all (\<lambda>j. j < shape1 a) js" using js by (rule np_indices_bound)
  have zero: "rows a ! i ! j = Num 0" if "i < length (rows a)" "j < shape1 a" for i j
  proof -
    from that(1) have m: "rows a ! i \<in> set (rows a)" by simp
    with wf have "length (rows a ! i) = shape1 a" by (auto simp: wf_array_def a_def list_all_iff)
    with that(2) have "rows a ! i ! j \<in> set (rows a ! i)" by simp
    with z m show ?thesis by (auto simp: all_zero_def a_def list_all_iff)
  qed
  have "all_zero vals"
    using ib jb zero by (auto simp: all_zero_def vals list_all_iff)
  moreover have "wf_array vals" by (simp add: wf_array_def vals list_all_iff)
  moreover have "shape1 vals = length io" using js by (simp add: vals np_indices_length)
  moreover have "shape0 vals = length so" using is' by (simp add: vals shape0_def np_indices_length)
  moreover have "length names = length io" using ns by (simp add: np_indices_length)
  moreover have "length ovs = length io" using os by (simp add: np_indices_length)
  ultimately show ?thesis by simp
qed

text \<open>
  C2, as stated, fails: the function has no fallback for a degenerate matrix. On the
  matrix with the single entry 0 the bounds are \<open>(0, 0)\<close>, not \<open>(-1, 1)\<close>, and the mean curve
  is \<open>0 / 0\<close>, NaN, not 0.
\<close>

theorem all_zero_matrix_nan_curve:
  "heatmap \<lparr>sv_values = \<lparr>shape1 = 1, rows = [[Num 0]]\<rparr>, feature_names = [''f0'']\<rparr>
     (Strategy (\<lambda>a ax. Inr ([0], [Num 0]))) (Sized [0]) 10 =
   Inr \<lparr>plot_values = \<lparr>shape1 = 1, rows = [[Num 0]]\<rparr>, ytick_labels = [''f0''],
        final_order_values = [Num 0], fig_height = 3, aspect = 7 / 10,
        vmin = Num 0, vmax = Num 0, fx_line = [NaN], bar_widths = [NaN]\<rparr>"
  by (simp add: heatmap_defs)

text \<open>
  C2, amended. For every all-zero matrix with at least one sample and one feature (and
  orderings that resolve and index it, and \<open>max_display \<ge> 1\<close>) the function raises
  nothing: it returns with the colour bounds \<open>(0, 0)\<close> and a mean curve that is NaN at
  every sample (numpy's \<open>0 / 0\<close>, a warning and no exception).
\<close>

theorem all_zero_matrix_layout:
  assumes z: "all_zero (sv_values shap_values)" and wf: "wf_array (sv_values shap_values)"
    and io: "resolve_input_order (sv_values shap_values) input_order = Inr (io, ov)"
    and so: "resolve_sample_order (sv_values shap_values) sample_order = Inr so"
    and r: "reindex shap_values io so ov = Inr (names, vals, ovs)"
    and ne: "io \<noteq> []" "so \<noteq> []" and md: "1 \<le> max_display"
  shows "\<exists>L. heatmap shap_values input_order sample_order max_display = Inr L \<and>
             vmin L = Num 0 \<and> vmax L = Num 0 \<and> fx_line L = replicate (length so) NaN"
proof -
  from reindex_zero [OF z wf r] have v:
    "all_zero vals" "wf_array vals" "shape1 vals = length io" "shape0 vals = length so"
    "length names = length io" "length ovs = length io"
    by simp_all
  from v(3,5,6) ne(1) have s1: "shape1 vals \<noteq> 0" "length names = shape1 vals" "ovs \<noteq> []"
    by auto
  from collapse_zero [OF v(1,2) md s1(2,1,3)] obtain vals' names' ovs' where
    c: "collapse vals names ovs max_display = Inr (vals', names', ovs')"
       "all_zero vals'" "wf_array vals'" "shape1 vals' \<noteq> 0" "shape0 vals' = shape0 vals"
       "ovs' \<noteq> []"
    by blast
  from c(5) v(4) ne(2) have r0: "rows vals' \<noteq> []" by (auto simp: shape0_def)
  from plot_layout_zero [OF c(2,3,4) r0 c(6)] obtain L where
    L: "plot_layout vals' names' ovs' = Inr L" "vmin L = Num 0" "vmax L = Num 0"
       "fx_line L = replicate (shape0 vals') NaN"
    by blast
  have "heatmap shap_values input_order sample_order max_display = Inr L"
    using io so r c(1) L(1) by (simp add: heatmap_def)
  with L c(5) v(4) show ?thesis by simp
qed

theorem all_zero_matrix_layout_witness:
  "all_zero \<lparr>shape1 = 2, rows = [[Num 0, Num 0], [Num 0, Num 0]]\<rparr> \<and>
   wf_array \<lparr>shape1 = 2, rows = [[Num 0, Num 0], [Num 0, Num 0]]\<rparr> \<and>
   heatmap \<lparr>sv_values = \<lparr>shape1 = 2, rows = [[Num 0, Num 0], [Num 0, Num 0]]\<rparr>,
            feature_names = [''f0'', ''f1'']\<rparr>
     (Strategy (\<lambda>a ax. Inr ([1, 0], [Num 1, Num 2]))) (Sized [1, 0]) 10 =
   Inr \<lparr>plot_values = \<lparr>shape1 = 2, rows = [[Num 0, Num 0], [Num 0, Num 0]]\<rparr>,
        ytick_labels = [''f1'', ''f0''],
        final_order_values = [Num 2, Num 1], fig_height = 7 / 2, aspect = 7 / 10,
        vmin = Num 0, vmax = Num 0, fx_line = [NaN, NaN],
        bar_widths = [Num (1 / 10), Num (1 / 20)]\<rparr>"
  using all_zero_matrix_layout
    [where shap_values = "\<lparr>sv_values = \<lparr>shape1 = 2, rows = [[Num 0, Num 0], [Num 0, Num 0]]\<rparr>,
                            feature_names = [''f0'', ''f1'']\<rparr>"
       and input_order = "Strategy (\<lambda>a ax. Inr ([1, 0], [Num 1, Num 2]))"
       and sample_order = "Sized [1, 0]" and max_display = 10
       and io = "[1, 0]" and ov = "Some [Num 1, Num 2]" and so = "[1, 0]"
       and names = "[''f1'', ''f0'']"
       and vals = "\<lparr>shape1 = 2, rows = [[Num 0, Num 0], [Num 0, Num 0]]\<rparr>"
       and ovs = "[Num 2, Num 1]"]
  by (simp add: heatmap_defs all_zero_def wf_array_def)

end
